theory Spec2Isabelle
  imports Main "HOL-Library.Word" "HOL-Library.Monad_Syntax"
begin

section \<open>Machine types and constants (memory.h, fs_ramdisk.h)\<close>

type_synonym u8 = "8 word"
type_synonym u32 = "32 word"

definition RAMDISK_MAGIC :: string where
  "RAMDISK_MAGIC = ''ATOMICFS''"

definition RAMDISK_VERSION :: u32 where
  "RAMDISK_VERSION = 1"

definition RAMDISK_DEFAULT_SIZE :: u32 where
  "RAMDISK_DEFAULT_SIZE = 1024 * 1024"

definition RAMDISK_BLOCK_SIZE :: u32 where
  "RAMDISK_BLOCK_SIZE = 1024"

definition RAMDISK_MAX_FILES :: nat where
  "RAMDISK_MAX_FILES = 64"

definition RAMDISK_FILENAME_LEN :: nat where
  "RAMDISK_FILENAME_LEN = 32"

text \<open>
  The two structures of fs_ramdisk.h. Only the fields the code reads or writes are kept:
  \<open>fat_blocks\<close>, \<open>file_table_blocks\<close> and the \<open>reserved\<close> arrays are never touched.
  \<open>magic\<close> and \<open>filename\<close> are C strings, modelled by the characters in front of the
  terminating NUL; a record whose \<open>filename[0]\<close> is 0 has the empty list as its name.
  The entry's \<open>size\<close> and \<open>type\<close> fields are called \<open>size_f\<close> and \<open>type_f\<close> here.
\<close>

record RAMDiskSuperblock =
  magic :: string
  version :: u32
  total_blocks :: u32
  free_blocks :: u32
  file_count :: u32
  block_size :: u32
  data_blocks :: u32

record RAMDiskFileEntry =
  filename :: string
  start_block :: u32
  size_f :: u32
  timestamp :: u32
  type_f :: u8

text \<open>
  \<open>sizeof\<close> of the two structures: every member is a byte array or a 4-byte integer at
  a 4-byte offset, so there is no padding.
  \<open>char[8] + 8 * u32 + u8[476]\<close> and \<open>char[32] + 3 * u32 + u8 + u8[15]\<close>.
\<close>

definition sizeof_RAMDiskSuperblock :: u32 where
  "sizeof_RAMDiskSuperblock = 8 + 8 * 4 + 476"

definition sizeof_RAMDiskFileEntry :: u32 where
  "sizeof_RAMDiskFileEntry = of_nat RAMDISK_FILENAME_LEN + 3 * 4 + 1 + 15"

text \<open>
  The object \<open>RAMDiskFS\<close>. Its pointer members are kept as 32-bit addresses
  (\<open>fat_ptr\<close>, \<open>file_table_ptr\<close>, \<open>data_blocks_ptr\<close>; the superblock pointer equals
  \<open>disk_memory\<close>), and what they point to is kept beside them: the superblock, the
  allocation table \<open>fat\<close> indexed by block number, the \<open>file_table\<close> indexed by slot,
  and the bytes of the data region indexed by their offset from \<open>data_blocks\<close>.
  An array behind a pointer is a function from the index: C does not know its length.
\<close>

record RAMDiskFS =
  disk_memory :: u32
  total_size :: u32
  fat_ptr :: u32
  file_table_ptr :: u32
  data_blocks_ptr :: u32
  superblock :: RAMDiskSuperblock
  fat :: "nat \<Rightarrow> u8"
  file_table :: "nat \<Rightarrow> RAMDiskFileEntry"
  data_region :: "nat \<Rightarrow> u8"

section \<open>String helpers\<close>

text \<open>
  \<open>strcmp\<close>: walk both strings while the characters agree, then return the difference
  of the two characters read as unsigned bytes; the end of a list is the NUL.
\<close>

fun strcmp :: "string \<Rightarrow> string \<Rightarrow> int" where
  "strcmp [] [] = 0"
| "strcmp [] (b # bs) = - int (of_char b)"
| "strcmp (a # as) [] = int (of_char a)"
| "strcmp (a # as) (b # bs) =
     (if a = b then strcmp as bs else int (of_char a) - int (of_char b))"

section \<open>Initialisation and format\<close>

text \<open>
  \<open>format\<close>: write the superblock, clear the first \<open>total_blocks\<close> table entries and the
  64 directory records. Everything else in the region keeps what it held.
\<close>

definition format :: "RAMDiskFS \<Rightarrow> bool \<times> RAMDiskFS" where
  "format fs =
     (let tb = (total_size fs - (data_blocks_ptr fs - disk_memory fs)) div RAMDISK_BLOCK_SIZE;
          sb = (superblock fs)\<lparr>magic := RAMDISK_MAGIC, version := RAMDISK_VERSION,
                 block_size := RAMDISK_BLOCK_SIZE, total_blocks := tb, free_blocks := tb,
                 file_count := 0, data_blocks := tb\<rparr>
      in (True,
          fs\<lparr>superblock := sb,
             fat := (\<lambda>i. if i < unat tb then 0 else fat fs i),
             file_table := (\<lambda>i. if i < RAMDISK_MAX_FILES
                then (file_table fs i)\<lparr>filename := [], start_block := 0, size_f := 0,
                       timestamp := 0, type_f := 0\<rparr>
                else file_table fs i)\<rparr>))"

text \<open>
  \<open>initialize\<close>: the layout. \<open>fat\<close> is a byte pointer, so \<open>fat + fat_size\<close> advances by
  \<open>fat_size\<close> bytes; \<open>file_table\<close> is a pointer to records, so
  \<open>file_table + file_table_size\<close> advances by \<open>file_table_size\<close> records, that is by
  \<open>file_table_size * sizeof(RAMDiskFileEntry)\<close> bytes.
\<close>

definition initialize :: "RAMDiskFS \<Rightarrow> u32 \<Rightarrow> u32 \<Rightarrow> bool \<times> RAMDiskFS" where
  "initialize fs memory_address sz =
     (let superblock_size = sizeof_RAMDiskSuperblock;
          fat_size = sz div RAMDISK_BLOCK_SIZE;
          file_table_size = of_nat RAMDISK_MAX_FILES * sizeof_RAMDiskFileEntry;
          fat_p = memory_address + superblock_size;
          file_table_p = fat_p + fat_size;
          data_blocks_p = file_table_p + file_table_size * sizeof_RAMDiskFileEntry
      in format (fs\<lparr>disk_memory := memory_address, total_size := sz, fat_ptr := fat_p,
                    file_table_ptr := file_table_p, data_blocks_ptr := data_blocks_p\<rparr>))"

section \<open>Helpers of the engine\<close>

definition calculate_blocks_needed :: "u32 \<Rightarrow> u32" where
  "calculate_blocks_needed file_size =
     (file_size + RAMDISK_BLOCK_SIZE - 1) div RAMDISK_BLOCK_SIZE"

text \<open>The two directory scans return the slot they stop at, \<open>None\<close> for \<open>nullptr\<close>.\<close>

definition find_file_entry :: "RAMDiskFS \<Rightarrow> string \<Rightarrow> nat option" where
  "find_file_entry fs name =
     List.find (\<lambda>i. filename (file_table fs i) \<noteq> [] \<and>
                    strcmp (filename (file_table fs i)) name = 0)
       [0..<RAMDISK_MAX_FILES]"

definition find_free_file_entry :: "RAMDiskFS \<Rightarrow> nat option" where
  "find_free_file_entry fs =
     List.find (\<lambda>i. filename (file_table fs i) = []) [0..<RAMDISK_MAX_FILES]"

section \<open>delete\_file\<close>

text \<open>
  The loop \<open>fat[entry->start_block + i] = 0\<close>, the index computed in 32 bits. A write
  at or beyond \<open>total_blocks\<close> leaves the table: the model stops there with \<open>None\<close>.
\<close>

fun free_run :: "u32 \<Rightarrow> nat \<Rightarrow> nat list \<Rightarrow> (nat \<Rightarrow> u8) \<Rightarrow> (nat \<Rightarrow> u8) option" where
  "free_run start bound [] table = Some table"
| "free_run start bound (i # rest) table =
     (let j = unat (start + of_nat i)
      in if j < bound then free_run start bound rest (table(j := 0)) else None)"

definition delete_file :: "RAMDiskFS \<Rightarrow> string \<Rightarrow> (bool \<times> RAMDiskFS) option" where
  "delete_file fs name =
     (case find_file_entry fs name of
        None \<Rightarrow> Some (False, fs)
      | Some slot \<Rightarrow>
          (let entry = file_table fs slot;
               sb = superblock fs;
               blocks_needed = calculate_blocks_needed (size_f entry)
           in case free_run (start_block entry) (unat (total_blocks sb))
                     [0..<unat blocks_needed] (fat fs) of
                None \<Rightarrow> None
              | Some table \<Rightarrow>
                  Some (True,
                    fs\<lparr>fat := table,
                       file_table := (file_table fs)(slot := entry\<lparr>filename := [],
                          start_block := 0, size_f := 0, timestamp := 0, type_f := 0\<rparr>),
                       superblock := sb\<lparr>file_count := file_count sb - 1,
                          free_blocks := free_blocks sb + blocks_needed\<rparr>\<rparr>)))"

section \<open>create\_file\<close>

text \<open>
  The scan for free blocks: \<open>i\<close> runs from 0 while \<open>i < total_blocks\<close> and fewer than
  \<open>blocks_needed\<close> blocks are found; \<open>found\<close> is \<open>allocated_blocks\<close> up to
  \<open>blocks_found\<close>.
\<close>

function collect_free :: "(nat \<Rightarrow> u8) \<Rightarrow> nat \<Rightarrow> nat \<Rightarrow> nat \<Rightarrow> u32 list \<Rightarrow> u32 list" where
  "collect_free table nblocks needed i found =
     (if i < nblocks \<and> length found < needed
      then collect_free table nblocks needed (Suc i)
             (if table i = 0 then found @ [of_nat i] else found)
      else found)"
  by pat_completeness auto
termination
  by (relation "measure (\<lambda>(table, nblocks, needed, i, found). nblocks - i)") auto

declare collect_free.simps [simp del]

text \<open>The inner copy loop: \<open>dest[i] = data[bytes_copied + i]\<close> for \<open>i < n\<close>.\<close>

definition write_block ::
  "(nat \<Rightarrow> u8) \<Rightarrow> nat \<Rightarrow> (nat \<Rightarrow> u8) \<Rightarrow> nat \<Rightarrow> nat \<Rightarrow> (nat \<Rightarrow> u8)" where
  "write_block region dest src bytes_copied n =
     fold (\<lambda>i r. r(dest + i := src (bytes_copied + i))) [0..<n] region"

text \<open>
  The outer copy loop over the allocated blocks, while \<open>bytes_copied < size\<close>. The
  destination offset \<open>allocated_blocks[block_idx] * RAMDISK_BLOCK_SIZE\<close> is a 32-bit
  product. A block that does not lie inside the \<open>limit\<close> bytes of the data region would
  be written outside it: \<open>None\<close>.
\<close>

fun copy_blocks ::
  "u32 list \<Rightarrow> (nat \<Rightarrow> u8) \<Rightarrow> u32 \<Rightarrow> u32 \<Rightarrow> nat \<Rightarrow> (nat \<Rightarrow> u8) \<Rightarrow> (nat \<Rightarrow> u8) option" where
  "copy_blocks [] src sz bytes_copied limit region = Some region"
| "copy_blocks (b # rest) src sz bytes_copied limit region =
     (if bytes_copied < sz
      then (let dest = unat (b * RAMDISK_BLOCK_SIZE);
                bytes_in_this_block =
                  (if sz - bytes_copied < RAMDISK_BLOCK_SIZE
                   then sz - bytes_copied else RAMDISK_BLOCK_SIZE)
            in if dest + unat bytes_in_this_block \<le> limit
               then copy_blocks rest src sz (bytes_copied + bytes_in_this_block) limit
                      (write_block region dest src (unat bytes_copied)
                         (unat bytes_in_this_block))
               else None)
      else Some region)"

text \<open>
  \<open>create_file\<close>. The two pointer arguments are \<open>None\<close> for \<open>nullptr\<close>; the payload
  pointer is the function from the index to the byte. \<open>None\<close> as the result marks the
  places where the C code leaves its structures: the overwrite's \<open>delete_file\<close> writing
  beyond the table, \<open>allocated_blocks[0]\<close> read when the array has no element,
  \<open>copy_str\<close> writing a name of 32 or more characters into \<open>filename[32]\<close>, and a block
  copied outside the data region.
\<close>

definition create_file ::
  "RAMDiskFS \<Rightarrow> string option \<Rightarrow> (nat \<Rightarrow> u8) option \<Rightarrow> u32 \<Rightarrow> (bool \<times> RAMDiskFS) option" where
  "create_file fs filename_p data_p sz =
     (case (filename_p, data_p) of
        (Some name, Some payload) \<Rightarrow>
          if sz = 0 then Some (False, fs)
          else do {
            fs1 \<leftarrow> (case find_file_entry fs name of
                      None \<Rightarrow> Some fs
                    | Some existing \<Rightarrow> map_option snd (delete_file fs name));
            case find_free_file_entry fs1 of
              None \<Rightarrow> Some (False, fs1)
            | Some slot \<Rightarrow>
                (let sb = superblock fs1;
                     blocks_needed = calculate_blocks_needed sz
                 in if blocks_needed > free_blocks sb then Some (False, fs1)
                    else
                      (let allocated_blocks =
                             collect_free (fat fs1) (unat (total_blocks sb))
                               (unat blocks_needed) 0 []
                       in if length allocated_blocks < unat blocks_needed
                          then Some (False, fs1)
                          else
                            (case allocated_blocks of
                               [] \<Rightarrow> None
                             | first # others \<Rightarrow>
                                 if length name \<ge> RAMDISK_FILENAME_LEN then None
                                 else do {
                                   region \<leftarrow> copy_blocks allocated_blocks payload sz 0
                                     (unat (total_blocks sb) * unat RAMDISK_BLOCK_SIZE)
                                     (data_region fs1);
                                   Some (True,
                                     fs1\<lparr>fat := fold (\<lambda>b t. t(unat b := 1))
                                                   allocated_blocks (fat fs1),
                                         file_table := (file_table fs1)(slot :=
                                           (file_table fs1 slot)\<lparr>filename := name,
                                              start_block := first, size_f := sz,
                                              timestamp := 0, type_f := 0\<rparr>),
                                         data_region := region,
                                         superblock := sb\<lparr>file_count := file_count sb + 1,
                                           free_blocks := free_blocks sb - blocks_needed\<rparr>\<rparr>)
                                 })))
          }
      | _ \<Rightarrow> Some (False, fs))"

section \<open>read\_file and get\_file\_info\<close>

text \<open>
  \<open>read_file\<close> copies \<open>size\<close> bytes from offset \<open>start_block * RAMDISK_BLOCK_SIZE\<close>
  of the data region into the caller's buffer. It returns the flag, the buffer and the
  store.
\<close>

definition read_file ::
  "RAMDiskFS \<Rightarrow> string option \<Rightarrow> (nat \<Rightarrow> u8) option \<Rightarrow> u32
     \<Rightarrow> bool \<times> (nat \<Rightarrow> u8) option \<times> RAMDiskFS" where
  "read_file fs filename_p buffer_p buffer_size =
     (case (filename_p, buffer_p) of
        (Some name, Some buffer) \<Rightarrow>
          (case find_file_entry fs name of
             None \<Rightarrow> (False, buffer_p, fs)
           | Some slot \<Rightarrow>
               (let entry = file_table fs slot
                in if buffer_size < size_f entry then (False, buffer_p, fs)
                   else
                     (let src = unat (start_block entry * RAMDISK_BLOCK_SIZE)
                      in (True,
                          Some (fold (\<lambda>i b. b(i := data_region fs (src + i)))
                                  [0..<unat (size_f entry)] buffer),
                          fs))))
      | _ \<Rightarrow> (False, buffer_p, fs))"

text \<open>
  \<open>get_file_info\<close>: the two out-parameters are the cells behind the pointers, \<open>None\<close>
  for \<open>nullptr\<close>; the result is what the cells hold afterwards.
\<close>

definition get_file_info ::
  "RAMDiskFS \<Rightarrow> string \<Rightarrow> u32 option \<Rightarrow> u32 option \<Rightarrow> u32 option \<times> u32 option" where
  "get_file_info fs name size_p timestamp_p =
     (case find_file_entry fs name of
        Some slot \<Rightarrow>
          (map_option (\<lambda>old. size_f (file_table fs slot)) size_p,
           map_option (\<lambda>old. timestamp (file_table fs slot)) timestamp_p)
      | None \<Rightarrow> (size_p, timestamp_p))"

section \<open>The public interface and runs of requests\<close>

text \<open>
  \<open>fs_initialize\<close> formats one megabyte at the 2MB mark. Before it runs, the global
  object and the region hold whatever the machine left there; \<open>zeroed\<close> is the case
  where every byte is 0.
\<close>

definition fs_initialize :: "RAMDiskFS \<Rightarrow> RAMDiskFS" where
  "fs_initialize fs = snd (initialize fs 0x200000 RAMDISK_DEFAULT_SIZE)"

definition zeroed :: RAMDiskFS where
  "zeroed =
     \<lparr>disk_memory = 0, total_size = 0, fat_ptr = 0, file_table_ptr = 0, data_blocks_ptr = 0,
      superblock = \<lparr>magic = [], version = 0, total_blocks = 0, free_blocks = 0,
        file_count = 0, block_size = 0, data_blocks = 0\<rparr>,
      fat = (\<lambda>i. 0),
      file_table = (\<lambda>i. \<lparr>filename = [], start_block = 0, size_f = 0, timestamp = 0,
        type_f = 0\<rparr>),
      data_region = (\<lambda>i. 0)\<rparr>"

text \<open>A caller's memory whose bytes all hold \<open>b\<close>: a payload, or a buffer to read into.\<close>

definition fill :: "u8 \<Rightarrow> nat \<Rightarrow> u8" where
  "fill b i = b"

text \<open>
  A caller's sequence of \<open>fs_create_file\<close>, \<open>fs_delete_file\<close> and \<open>fs_read_file\<close> calls,
  run from left to right on the store. The result is the list of the flags returned and
  the store at the end; the bytes a read delivers are dropped.
\<close>

datatype request =
    Create "string option" "(nat \<Rightarrow> u8) option" u32
  | Delete string
  | Read "string option" "(nat \<Rightarrow> u8) option" u32

fun serve :: "RAMDiskFS \<Rightarrow> request \<Rightarrow> (bool \<times> RAMDiskFS) option" where
  "serve fs (Create filename_p data_p sz) = create_file fs filename_p data_p sz"
| "serve fs (Delete name) = delete_file fs name"
| "serve fs (Read filename_p buffer_p buffer_size) =
     (case read_file fs filename_p buffer_p buffer_size of
        (ok, buffer, fs1) \<Rightarrow> Some (ok, fs1))"

fun serve_all :: "RAMDiskFS \<Rightarrow> request list \<Rightarrow> (bool list \<times> RAMDiskFS) option" where
  "serve_all fs [] = Some ([], fs)"
| "serve_all fs (r # rs) =
     (case serve fs r of
        None \<Rightarrow> None
      | Some (ok, fs1) \<Rightarrow>
          (case serve_all fs1 rs of
             None \<Rightarrow> None
           | Some (oks, fs2) \<Rightarrow> Some (ok # oks, fs2)))"

text \<open>The two counts the superblock is meant to mirror, and two probes into the store.\<close>

definition fat_zero_entries :: "RAMDiskFS \<Rightarrow> nat" where
  "fat_zero_entries fs =
     length (filter (\<lambda>i. fat fs i = 0) [0..<unat (total_blocks (superblock fs))])"

definition live_records :: "RAMDiskFS \<Rightarrow> nat" where
  "live_records fs =
     length (filter (\<lambda>i. filename (file_table fs i) \<noteq> []) [0..<RAMDISK_MAX_FILES])"

definition fat_at :: "nat \<Rightarrow> RAMDiskFS \<Rightarrow> u8" where
  "fat_at i fs = fat fs i"

definition name_at :: "nat \<Rightarrow> RAMDiskFS \<Rightarrow> string" where
  "name_at slot fs = filename (file_table fs slot)"

text \<open>
  A store whose 64 directory records are all live: the default store with the files
  \<open>f0\<close>, \<open>f1\<close>, ... of one byte each in the blocks 0 to 63 (the second character of the
  name of slot \<open>i\<close> has the code \<open>48 + i\<close>).
\<close>

definition crowded :: RAMDiskFS where
  "crowded =
     (fs_initialize zeroed)
       \<lparr>superblock := (superblock (fs_initialize zeroed))\<lparr>free_blocks := 733, file_count := 64\<rparr>,
        fat := (\<lambda>i. if i < 64 then 1 else 0),
        file_table := (\<lambda>i. \<lparr>filename = [CHR ''f'', char_of (48 + i)], start_block = of_nat i,
          size_f = 1, timestamp = 0, type_f = 0\<rparr>)\<rparr>"

text \<open>
  Two readings of \<open>create_file\<close> used to state what a call allocated: the store as the
  overwrite at its start leaves it (the same-named file deleted, if there is one), and
  the blocks the scan for free blocks then collects on that store.
\<close>

definition overwritten :: "RAMDiskFS \<Rightarrow> string \<Rightarrow> RAMDiskFS option" where
  "overwritten fs name =
     (case find_file_entry fs name of
        None \<Rightarrow> Some fs
      | Some existing \<Rightarrow> map_option snd (delete_file fs name))"

definition allocation_of :: "RAMDiskFS \<Rightarrow> string \<Rightarrow> u32 \<Rightarrow> u32 list option" where
  "allocation_of fs name sz =
     map_option
       (\<lambda>fs1. collect_free (fat fs1) (unat (total_blocks (superblock fs1)))
                (unat (calculate_blocks_needed sz)) 0 [])
       (overwritten fs name)"

text \<open>A request is \<open>named\<close> unless it is a create whose name is the empty string.\<close>

fun named :: "request \<Rightarrow> bool" where
  "named (Create filename_p data_p sz) = (filename_p \<noteq> Some [])"
| "named (Delete name) = True"
| "named (Read filename_p buffer_p buffer_size) = True"

section \<open>What the guard of create\_file rejects\<close>

lemma create_file_null_name: "create_file fs None data_p sz = Some (False, fs)"
  by (simp add: create_file_def)

lemma create_file_null_data: "create_file fs filename_p None sz = Some (False, fs)"
  by (simp add: create_file_def split: option.splits)

lemma create_file_empty_payload: "create_file fs filename_p data_p 0 = Some (False, fs)"
  by (simp add: create_file_def split: option.splits)

section \<open>The layout bound\<close>

text \<open>
  \<open>format\<close> computes \<open>total_blocks\<close> as a 32-bit byte count divided by the block size,
  so the blocks never cover more than the 32-bit address space; no request changes
  \<open>total_blocks\<close>.
\<close>

lemma format_layout: "unat (total_blocks (superblock (snd (format fs)))) * 1024 \<le> 2 ^ 32"
proof -
  define x where "x = total_size fs - (data_blocks_ptr fs - disk_memory fs)"
  have "total_blocks (superblock (snd (format fs))) = x div 1024"
    by (simp add: format_def Let_def x_def RAMDISK_BLOCK_SIZE_def)
  then have "unat (total_blocks (superblock (snd (format fs)))) = unat x div 1024"
    by (simp add: unat_div)
  moreover have "unat x < 2 ^ 32" using unsigned_less [of x] by simp
  ultimately show ?thesis by simp
qed

lemma delete_file_total_blocks:
  assumes "delete_file fs name = Some (ok, fs')"
  shows "total_blocks (superblock fs') = total_blocks (superblock fs)"
  using assms by (auto simp: delete_file_def Let_def split: option.splits)

section \<open>The loops of create\_file and read\_file\<close>

lemma write_block_apply:
  "write_block region dest src c n a =
     (if dest \<le> a \<and> a < dest + n then src (c + (a - dest)) else region a)"
  unfolding write_block_def by (induction n arbitrary: a) auto

lemma read_loop_apply:
  "fold (\<lambda>i b. b(i := f i)) [0..<n] buffer a = (if a < n then f a else buffer a)"
  by (induction n arbitrary: a) auto

lemma copy_blocks_done:
  "\<not> copied < sz \<Longrightarrow> copy_blocks bs src sz copied limit region = Some region"
  by (cases bs) simp_all

lemma strcmp_same: "strcmp s s = 0"
  by (induction s) simp_all

lemma collect_free_bound:
  assumes "\<forall>b\<in>set found. unat b < nblocks" "nblocks < 2 ^ 32"
  shows "\<forall>b\<in>set (collect_free table nblocks needed i found). unat b < nblocks"
  using assms
proof (induction table nblocks needed i found rule: collect_free.induct)
  case (1 table nblocks needed i found)
  show ?case
  proof (cases "i < nblocks \<and> length found < needed")
    case True
    have "unat (of_nat i :: u32) = i"
      using True "1.prems"(2) by (simp add: unat_of_nat)
    then have "\<forall>b\<in>set (if table i = 0 then found @ [of_nat i] else found). unat b < nblocks"
      using True "1.prems"(1) by auto
    then have "\<forall>b\<in>set (collect_free table nblocks needed (Suc i)
        (if table i = 0 then found @ [of_nat i] else found)). unat b < nblocks"
      using "1.IH" [OF True] "1.prems"(2) by blast
    then show ?thesis
      by (subst collect_free.simps) (simp only: if_P [OF True])
  next
    case False
    have "collect_free table nblocks needed i found = found"
      by (subst collect_free.simps) (simp only: if_not_P [OF False])
    then show ?thesis using "1.prems"(1) by simp
  qed
qed

lemma block_offset:
  fixes b :: u32
  assumes "unat b * 1024 < 2 ^ 32"
  shows "unat (b * RAMDISK_BLOCK_SIZE) = unat b * 1024"
proof -
  have "unat b * unat (1024 :: u32) < 2 ^ LENGTH(32)" using assms by simp
  then have "unat (b * 1024) = unat b * unat (1024 :: u32)"
    by (simp only: unat_mult_lem)
  then show ?thesis by (simp add: RAMDISK_BLOCK_SIZE_def)
qed

lemma copy_blocks_contiguous:
  "copy_blocks bs src sz copied limit region = Some region' \<Longrightarrow>
   map unat bs = [s..<s + length bs] \<Longrightarrow>
   (s + length bs) * 1024 \<le> 2 ^ 32 \<Longrightarrow>
   s * 1024 = base + unat copied \<Longrightarrow>
   unat sz \<le> unat copied + 1024 * length bs \<Longrightarrow>
   region' a = (if base + unat copied \<le> a \<and> a < base + unat sz then src (a - base)
                else region a)"
proof (induction bs arbitrary: s copied region)
  case Nil
  then have same: "region' = region" and "unat sz \<le> unat copied" by simp_all
  then have neg: "\<not> (base + unat copied \<le> a \<and> a < base + unat sz)" by linarith
  show ?case unfolding if_not_P [OF neg] same ..
next
  case (Cons b rest)
  show ?case
  proof (cases "copied < sz")
    case False
    then have "unat sz \<le> unat copied" by (simp add: word_less_nat_alt)
    then have neg: "\<not> (base + unat copied \<le> a \<and> a < base + unat sz)" by linarith
    have same: "region' = region"
      using Cons.prems(1) False by simp
    show ?thesis unfolding if_not_P [OF neg] same ..
  next
    case True
    then have lt: "unat copied < unat sz" by (simp add: word_less_nat_alt)
    have up: "[s..<s + length (b # rest)] = s # [Suc s..<Suc s + length rest]"
      using upt_conv_Cons [of s "s + length (b # rest)"] by simp
    have b: "unat b = s" and rest: "map unat rest = [Suc s..<Suc s + length rest]"
      using Cons.prems(2) unfolding up by simp_all
    have "unat b * 1024 < 2 ^ 32"
      using Cons.prems(3) b by simp
    then have dest: "unat (b * RAMDISK_BLOCK_SIZE) = s * 1024"
      using block_offset b by simp
    have diff: "unat (sz - copied) = unat sz - unat copied"
      using True by (simp add: unat_sub)
    define nb :: u32 where
      "nb = (if sz - copied < RAMDISK_BLOCK_SIZE then sz - copied else RAMDISK_BLOCK_SIZE)"
    have nb: "unat nb = min (unat sz - unat copied) 1024"
      unfolding nb_def using diff
      by (simp add: word_less_nat_alt RAMDISK_BLOCK_SIZE_def min_def)
    have "unat copied + unat nb < 2 ^ LENGTH(32)"
    proof -
      have "unat copied + unat nb \<le> unat sz" using nb lt by simp
      moreover have "unat sz < 2 ^ LENGTH(32)" by (rule unsigned_less)
      ultimately show ?thesis by simp
    qed
    then have sum: "unat (copied + nb) = unat copied + unat nb"
      by (simp only: unat_add_lem)
    define region1 where
      "region1 = write_block region (s * 1024) src (unat copied) (unat nb)"
    have unfold: "copy_blocks (b # rest) src sz copied limit region =
        (if s * 1024 + unat nb \<le> limit
         then copy_blocks rest src sz (copied + nb) limit region1 else None)"
      unfolding region1_def nb_def dest [symmetric] using True by (simp add: Let_def)
    have step: "copy_blocks rest src sz (copied + nb) limit region1 = Some region'"
      using Cons.prems(1) unfolding unfold by (cases "s * 1024 + unat nb \<le> limit") simp_all
    have r1: "region1 a = (if base + unat copied \<le> a \<and> a < base + unat copied + unat nb
                then src (a - base) else region a)"
      unfolding region1_def write_block_apply Cons.prems(4) by auto
    show ?thesis
    proof (cases "unat sz - unat copied < 1024")
      case True
      then have "unat (copied + nb) = unat sz" using sum nb lt by simp
      then have "\<not> copied + nb < sz" by (simp add: word_less_nat_alt)
      then have "region' = region1"
        using step by (simp add: copy_blocks_done)
      moreover have "unat copied + unat nb = unat sz" using nb True lt by simp
      ultimately show ?thesis using r1 by simp
    next
      case False
      then have nb1024: "unat nb = 1024" using nb by simp
      have ih: "region' a = (if base + unat (copied + nb) \<le> a \<and> a < base + unat sz
                  then src (a - base) else region1 a)"
      proof (rule Cons.IH [OF step rest])
        show "(Suc s + length rest) * 1024 \<le> 2 ^ 32" using Cons.prems(3) by simp
        show "Suc s * 1024 = base + unat (copied + nb)"
          using Cons.prems(4) sum nb1024 by simp
        show "unat sz \<le> unat (copied + nb) + 1024 * length rest"
          using Cons.prems(5) sum nb1024 by simp
      qed
      have "unat copied + 1024 \<le> unat sz" using False lt by simp
      then show ?thesis
        unfolding ih r1 sum nb1024 by (cases "base + unat copied + 1024 \<le> a") simp_all
    qed
  qed
qed


section \<open>Looking a name up after the overwrite\<close>

lemma find_upt_Some_iff:
  "List.find P [0..<n] = Some m \<longleftrightarrow> m < n \<and> P m \<and> (\<forall>j<m. \<not> P j)"
proof
  assume "List.find P [0..<n] = Some m"
  then obtain i where i: "i < length [0..<n]" "P ([0..<n] ! i)" "m = [0..<n] ! i"
    "\<forall>j<i. \<not> P ([0..<n] ! j)"
    unfolding find_Some_iff by blast
  then have "m = i" by simp
  with i show "m < n \<and> P m \<and> (\<forall>j<m. \<not> P j)" by simp
next
  assume m: "m < n \<and> P m \<and> (\<forall>j<m. \<not> P j)"
  show "List.find P [0..<n] = Some m"
    unfolding find_Some_iff
  proof (intro exI [of _ m] conjI)
    show "m < length [0..<n]" using m by simp
    show "P ([0..<n] ! m)" using m by simp
    show "m = [0..<n] ! m" using m by simp
    show "\<forall>j<m. \<not> P ([0..<n] ! j)" using m by simp
  qed
qed

lemma overwritten_total_blocks:
  assumes "overwritten fs name = Some fs1"
  shows "total_blocks (superblock fs1) = total_blocks (superblock fs)"
  using assms
  by (auto simp: overwritten_def delete_file_def Let_def split: option.splits)

lemma overwritten_no_match_before:
  assumes ow: "overwritten fs name = Some fs1"
    and free: "find_free_file_entry fs1 = Some slot"
    and j: "j < slot"
  shows "\<not> (filename (file_table fs1 j) \<noteq> [] \<and> strcmp (filename (file_table fs1 j)) name = 0)"
proof (cases "find_file_entry fs name")
  case None
  then have "fs1 = fs" using ow by (simp add: overwritten_def)
  moreover have "j < RAMDISK_MAX_FILES"
    using free j unfolding find_free_file_entry_def find_upt_Some_iff by simp
  ultimately show ?thesis
    using None unfolding find_file_entry_def find_None_iff by simp
next
  case (Some m)
  then have m: "m < RAMDISK_MAX_FILES"
    and first: "\<forall>i<m. \<not> (filename (file_table fs i) \<noteq> [] \<and>
                   strcmp (filename (file_table fs i)) name = 0)"
    unfolding find_file_entry_def find_upt_Some_iff by simp_all
  have table: "file_table fs1 = (file_table fs)(m := (file_table fs m)\<lparr>filename := [],
      start_block := 0, size_f := 0, timestamp := 0, type_f := 0\<rparr>)"
    using ow Some by (auto simp: overwritten_def delete_file_def Let_def split: option.splits)
  have "\<forall>i. i < slot \<longrightarrow> filename (file_table fs1 i) \<noteq> []"
    using free unfolding find_free_file_entry_def find_upt_Some_iff by simp
  moreover have "filename (file_table fs1 m) = []" using table by simp
  ultimately have "\<not> m < slot" by blast
  then have "j < m" using j by simp
  then show ?thesis using first table by simp
qed

section \<open>Round trip of a named file in contiguous blocks\<close>

text \<open>
  If \<open>create_file\<close> returns true for a non-empty name and the blocks it collected are
  the run \<open>s, s + 1, ...\<close>, then \<open>read_file\<close> under the same name with enough room returns
  true and the buffer holds the payload in its first \<open>size\<close> bytes.
\<close>

lemma blocks_needed_covers:
  assumes "calculate_blocks_needed sz \<noteq> 0"
  shows "unat sz \<le> 1024 * unat (calculate_blocks_needed sz)"
proof -
  have "sz + RAMDISK_BLOCK_SIZE - 1 = sz + 1023"
    by (simp add: RAMDISK_BLOCK_SIZE_def)
  then have "unat (calculate_blocks_needed sz) = unat (sz + 1023) div unat (1024 :: u32)"
    by (simp only: calculate_blocks_needed_def RAMDISK_BLOCK_SIZE_def unat_div)
  moreover have "unat (sz + 1023) = (unat sz + unat (1023 :: u32)) mod 2 ^ LENGTH(32)"
    by (rule unat_word_ariths(1))
  ultimately have n: "unat (calculate_blocks_needed sz) = ((unat sz + 1023) mod 4294967296) div 1024"
    by simp
  have bound: "unat sz < 4294967296" using unsigned_less [of sz] by simp
  show ?thesis
  proof (cases "unat sz + 1023 < 4294967296")
    case True
    then have "(unat sz + 1023) mod 4294967296 = unat sz + 1023" by simp
    then have n': "unat (calculate_blocks_needed sz) = (unat sz + 1023) div 1024"
      using n by simp
    define d r where "d = (unat sz + 1023) div 1024" and "r = (unat sz + 1023) mod 1024"
    have "d * 1024 + r = unat sz + 1023"
      unfolding d_def r_def by (rule div_mult_mod_eq)
    moreover have "r < 1024" unfolding r_def by simp
    ultimately have "unat sz \<le> 1024 * d" by linarith
    then show ?thesis unfolding n' d_def .
  next
    case False
    then have "(unat sz + 1023) mod 4294967296 = unat sz + 1023 - 4294967296"
      using bound by (simp add: mod_if)
    moreover have "unat sz + 1023 - 4294967296 < 1024" using bound by simp
    ultimately have "unat (calculate_blocks_needed sz) = 0"
      using n by simp
    then show ?thesis using assms by (simp add: unat_eq_0)
  qed
qed

lemma collect_free_none_needed: "collect_free table nblocks 0 i [] = []"
  by (subst collect_free.simps) simp


lemma create_file_TrueE:
  assumes created: "create_file fs (Some name) (Some payload) sz = Some (True, fs')"
    and ow: "overwritten fs name = Some fs1"
  obtains slot first others region where
    "sz \<noteq> 0"
    "find_free_file_entry fs1 = Some slot"
    "collect_free (fat fs1) (unat (total_blocks (superblock fs1)))
       (unat (calculate_blocks_needed sz)) 0 [] = first # others"
    "unat (calculate_blocks_needed sz) \<le> Suc (length others)"
    "length name < RAMDISK_FILENAME_LEN"
    "copy_blocks (first # others) payload sz 0
       (unat (total_blocks (superblock fs1)) * unat RAMDISK_BLOCK_SIZE) (data_region fs1)
       = Some region"
    "file_table fs' = (file_table fs1)(slot := (file_table fs1 slot)\<lparr>filename := name,
       start_block := first, size_f := sz, timestamp := 0, type_f := 0\<rparr>)"
    "data_region fs' = region"
proof -
  have nz: "sz \<noteq> 0" using created by (auto simp: create_file_def)
  have body: "(case find_free_file_entry fs1 of
       None \<Rightarrow> Some (False, fs1)
     | Some slot \<Rightarrow>
         (let sb = superblock fs1;
              blocks_needed = calculate_blocks_needed sz
          in if blocks_needed > free_blocks sb then Some (False, fs1)
             else
               (let allocated_blocks =
                      collect_free (fat fs1) (unat (total_blocks sb))
                        (unat blocks_needed) 0 []
                in if length allocated_blocks < unat blocks_needed
                   then Some (False, fs1)
                   else
                     (case allocated_blocks of
                        [] \<Rightarrow> None
                      | first # others \<Rightarrow>
                          if length name \<ge> RAMDISK_FILENAME_LEN then None
                          else do {
                            region \<leftarrow> copy_blocks allocated_blocks payload sz 0
                              (unat (total_blocks sb) * unat RAMDISK_BLOCK_SIZE)
                              (data_region fs1);
                            Some (True,
                              fs1\<lparr>fat := fold (\<lambda>b t. t(unat b := 1))
                                            allocated_blocks (fat fs1),
                                  file_table := (file_table fs1)(slot :=
                                    (file_table fs1 slot)\<lparr>filename := name,
                                       start_block := first, size_f := sz,
                                       timestamp := 0, type_f := 0\<rparr>),
                                  data_region := region,
                                  superblock := sb\<lparr>file_count := file_count sb + 1,
                                    free_blocks := free_blocks sb - blocks_needed\<rparr>\<rparr>)
                          })))) = Some (True, fs')"
    using created nz ow unfolding create_file_def overwritten_def [symmetric] by simp
  then obtain slot where slot: "find_free_file_entry fs1 = Some slot"
    by (cases "find_free_file_entry fs1") auto
  obtain first others where blocks:
    "collect_free (fat fs1) (unat (total_blocks (superblock fs1)))
       (unat (calculate_blocks_needed sz)) 0 [] = first # others"
    using body unfolding slot
    by (cases "collect_free (fat fs1) (unat (total_blocks (superblock fs1)))
       (unat (calculate_blocks_needed sz)) 0 []") (auto simp: Let_def split: if_splits)
  show ?thesis
    using body nz unfolding slot
    by (auto simp: Let_def blocks slot not_less bind_eq_Some_conv split: if_splits
        intro!: that [of slot first others])
qed


lemma create_then_read:
  assumes created: "create_file fs (Some name) (Some payload) sz = Some (True, fs')"
    and named: "name \<noteq> []"
    and layout: "unat (total_blocks (superblock fs)) * 1024 \<le> 2 ^ 32"
    and taken: "allocation_of fs name sz = Some blocks"
    and run: "map unat blocks = [s..<s + length blocks]"
    and room: "sz \<le> buffer_size"
  shows "read_file fs' (Some name) (Some buffer) buffer_size =
     (True, Some (\<lambda>i. if i < unat sz then payload i else buffer i), fs')"
proof -
  from taken obtain fs1 where ow: "overwritten fs name = Some fs1"
    and scan: "blocks = collect_free (fat fs1) (unat (total_blocks (superblock fs1)))
       (unat (calculate_blocks_needed sz)) 0 []"
    by (auto simp: allocation_of_def)
  from created ow obtain slot first others region where
    slot: "find_free_file_entry fs1 = Some slot"
    and cons: "collect_free (fat fs1) (unat (total_blocks (superblock fs1)))
       (unat (calculate_blocks_needed sz)) 0 [] = first # others"
    and enough: "unat (calculate_blocks_needed sz) \<le> Suc (length others)"
    and copied: "copy_blocks (first # others) payload sz 0
       (unat (total_blocks (superblock fs1)) * unat RAMDISK_BLOCK_SIZE) (data_region fs1)
       = Some region"
    and table: "file_table fs' = (file_table fs1)(slot := (file_table fs1 slot)\<lparr>filename := name,
       start_block := first, size_f := sz, timestamp := 0, type_f := 0\<rparr>)"
    and bytes: "data_region fs' = region"
    by (rule create_file_TrueE)
  have blocks: "blocks = first # others" using scan cons by simp
  have total: "total_blocks (superblock fs1) = total_blocks (superblock fs)"
    using ow by (rule overwritten_total_blocks)
  \<comment> \<open>the record is found again\<close>
  have slot_lt: "slot < RAMDISK_MAX_FILES"
    using slot unfolding find_free_file_entry_def find_upt_Some_iff by simp
  have before: "\<forall>j. j < slot \<longrightarrow> \<not> (filename (file_table fs' j) \<noteq> [] \<and>
      strcmp (filename (file_table fs' j)) name = 0)"
    using overwritten_no_match_before [OF ow slot] table by simp
  have found: "find_file_entry fs' name = Some slot"
    unfolding find_file_entry_def find_upt_Some_iff
    using slot_lt before named table by (simp add: strcmp_same)
  \<comment> \<open>the blocks lie inside the region and the payload fills them in order\<close>
  have first: "unat first = s"
    using run blocks upt_conv_Cons [of s "s + length blocks"] by simp
  have "\<forall>b\<in>set blocks. unat b < unat (total_blocks (superblock fs1))"
    unfolding scan
    by (rule collect_free_bound) (use unsigned_less [of "total_blocks (superblock fs1)"] in simp_all)
  moreover have "last blocks \<in> set blocks" using blocks by simp
  moreover have "unat (last blocks) = s + length blocks - 1"
  proof -
    have "unat (last blocks) = last (map unat blocks)" using blocks by (simp add: last_map)
    also have "\<dots> = s + length blocks - 1" unfolding run using blocks by simp
    finally show ?thesis .
  qed
  ultimately have "s + length blocks \<le> unat (total_blocks (superblock fs))"
    using blocks total by fastforce
  then have inside: "(s + length blocks) * 1024 \<le> 2 ^ 32"
    using layout by (meson le_trans mult_le_mono1)
  have "calculate_blocks_needed sz \<noteq> 0"
  proof
    assume "calculate_blocks_needed sz = 0"
    then show False using cons by (simp add: collect_free_none_needed)
  qed
  then have "unat sz \<le> 1024 * unat (calculate_blocks_needed sz)"
    by (rule blocks_needed_covers)
  then have covers: "unat sz \<le> unat (0 :: u32) + 1024 * length blocks"
    using enough blocks by simp
  have content: "region a = (if s * 1024 + unat (0 :: u32) \<le> a \<and> a < s * 1024 + unat sz
      then payload (a - s * 1024) else data_region fs1 a)" for a
    by (rule copy_blocks_contiguous [OF copied [folded blocks] run inside _ covers]) simp
  have src: "unat (first * RAMDISK_BLOCK_SIZE) = s * 1024"
  proof -
    have "unat first * 1024 < 2 ^ 32" using inside first blocks by simp
    then show ?thesis using block_offset first by simp
  qed
  \<comment> \<open>the read\<close>
  have "fold (\<lambda>i b. b(i := data_region fs' (s * 1024 + i))) [0..<unat sz] buffer
      = (\<lambda>i. if i < unat sz then payload i else buffer i)"
    by (rule ext) (simp add: read_loop_apply bytes content)
  then show ?thesis
    using found room table src by (simp add: read_file_def Let_def not_less)
qed


section \<open>file\_count and the live records\<close>

text \<open>
  As long as no create is given the empty string as its name, \<open>file_count\<close> is the
  number of records with a non-empty name in every store a formatted store can reach.
\<close>

lemma count_change:
  assumes "slot < n" and same: "\<forall>i. i \<noteq> slot \<longrightarrow> Q i = R i"
  shows "length (filter Q [0..<n]) + (if R slot then 1 else 0)
       = length (filter R [0..<n]) + (if Q slot then 1 else 0)"
  using assms(1)
proof (induction n)
  case 0
  then show ?case by simp
next
  case (Suc n)
  show ?case
  proof (cases "slot = n")
    case True
    have "filter Q [0..<n] = filter R [0..<n]"
      using True same by (intro filter_cong) auto
    then show ?thesis using True by simp
  next
    case False
    then have "slot < n" using Suc.prems by simp
    moreover have "Q n = R n" using False same by auto
    ultimately show ?thesis using Suc.IH by (simp split: if_splits)
  qed
qed

lemma live_records_le: "live_records fs \<le> RAMDISK_MAX_FILES"
  unfolding live_records_def using length_filter_le [of _ "[0..<RAMDISK_MAX_FILES]"] by simp

lemma live_records_table:
  assumes "slot < RAMDISK_MAX_FILES" and "file_table fs' = (file_table fs)(slot := e)"
  shows "live_records fs' + (if filename (file_table fs slot) \<noteq> [] then 1 else 0)
       = live_records fs + (if filename e \<noteq> [] then 1 else 0)"
  unfolding live_records_def
  using count_change [OF assms(1), of "\<lambda>i. filename (file_table fs' i) \<noteq> []"
      "\<lambda>i. filename (file_table fs i) \<noteq> []"] assms(2)
  by simp

lemma delete_file_count:
  assumes inv: "unat (file_count (superblock fs)) = live_records fs"
    and del: "delete_file fs name = Some (ok, fs')"
  shows "unat (file_count (superblock fs')) = live_records fs'"
proof (cases "find_file_entry fs name")
  case None
  then show ?thesis using inv del by (simp add: delete_file_def)
next
  case (Some m)
  then have m: "m < RAMDISK_MAX_FILES" and live: "filename (file_table fs m) \<noteq> []"
    unfolding find_file_entry_def find_upt_Some_iff by simp_all
  have table: "file_table fs' = (file_table fs)(m := (file_table fs m)\<lparr>filename := [],
      start_block := 0, size_f := 0, timestamp := 0, type_f := 0\<rparr>)"
    and count: "file_count (superblock fs') = file_count (superblock fs) - 1"
    using del Some by (auto simp: delete_file_def Let_def split: option.splits)
  have step: "live_records fs' + 1 = live_records fs"
    using live_records_table [OF m table] live by simp
  then have "1 \<le> unat (file_count (superblock fs))" using inv by simp
  then have "(1 :: u32) \<le> file_count (superblock fs)"
    by (simp add: word_le_nat_alt)
  then have "unat (file_count (superblock fs) - 1) = unat (file_count (superblock fs)) - 1"
    by (simp add: unat_sub)
  then show ?thesis using count inv step by simp
qed

lemma overwritten_file_count:
  assumes "unat (file_count (superblock fs)) = live_records fs"
    and "overwritten fs name = Some fs1"
  shows "unat (file_count (superblock fs1)) = live_records fs1"
proof (cases "find_file_entry fs name")
  case None
  then show ?thesis using assms by (simp add: overwritten_def)
next
  case (Some m)
  then obtain ok where "delete_file fs name = Some (ok, fs1)"
    using assms(2) by (auto simp: overwritten_def)
  then show ?thesis using assms(1) by (rule delete_file_count [rotated])
qed

lemma create_file_cases:
  assumes "create_file fs (Some name) (Some payload) sz = Some (ok, fs')" and "sz \<noteq> 0"
    and "overwritten fs name = Some fs1"
  shows "(\<not> ok \<and> fs' = fs1) \<or>
    (ok \<and> (\<exists>slot e. find_free_file_entry fs1 = Some slot \<and>
       file_table fs' = (file_table fs1)(slot := e) \<and> filename e = name \<and>
       file_count (superblock fs') = file_count (superblock fs1) + 1))"
  using assms unfolding create_file_def overwritten_def [symmetric]
  by (auto simp: Let_def bind_eq_Some_conv split: option.splits if_splits list.splits)

lemma create_file_overwrites:
  assumes "create_file fs (Some name) (Some payload) sz = Some (ok, fs')" and "sz \<noteq> 0"
  obtains fs1 where "overwritten fs name = Some fs1"
  using assms unfolding create_file_def overwritten_def [symmetric]
  by (auto simp: bind_eq_Some_conv)

lemma create_file_count:
  assumes inv: "unat (file_count (superblock fs)) = live_records fs"
    and cr: "create_file fs filename_p data_p sz = Some (ok, fs')"
    and named: "filename_p \<noteq> Some []"
  shows "unat (file_count (superblock fs')) = live_records fs'"
proof (cases "filename_p = None \<or> data_p = None \<or> sz = 0")
  case True
  then have "fs' = fs" using cr by (auto simp: create_file_def split: option.splits)
  then show ?thesis using inv by simp
next
  case False
  then obtain name payload where args: "filename_p = Some name" "data_p = Some payload"
    and nz: "sz \<noteq> 0" by auto
  have name: "name \<noteq> []" using named args by simp
  note cr' = cr [unfolded args]
  from cr' nz obtain fs1 where ow: "overwritten fs name = Some fs1"
    by (rule create_file_overwrites)
  have inv1: "unat (file_count (superblock fs1)) = live_records fs1"
    using inv ow by (rule overwritten_file_count)
  from create_file_cases [OF cr' nz ow] show ?thesis
  proof
    assume "\<not> ok \<and> fs' = fs1"
    then show ?thesis using inv1 by simp
  next
    assume "ok \<and> (\<exists>slot e. find_free_file_entry fs1 = Some slot \<and>
       file_table fs' = (file_table fs1)(slot := e) \<and> filename e = name \<and>
       file_count (superblock fs') = file_count (superblock fs1) + 1)"
    then obtain slot e where slot: "find_free_file_entry fs1 = Some slot"
      and table: "file_table fs' = (file_table fs1)(slot := e)"
      and e: "filename e = name"
      and count: "file_count (superblock fs') = file_count (superblock fs1) + 1"
      by blast
    have lt: "slot < RAMDISK_MAX_FILES" and free: "filename (file_table fs1 slot) = []"
      using slot unfolding find_free_file_entry_def find_upt_Some_iff by simp_all
    have step: "live_records fs' = live_records fs1 + 1"
      using live_records_table [OF lt table] free e name by simp
    have "live_records fs' \<le> 64"
      using live_records_le [of fs'] by (simp add: RAMDISK_MAX_FILES_def)
    then have "unat (file_count (superblock fs1)) + unat (1 :: u32) < 2 ^ LENGTH(32)"
      using step inv1 by simp
    then have "unat (file_count (superblock fs1) + 1) = unat (file_count (superblock fs1)) + unat (1 :: u32)"
      by (simp only: unat_add_lem)
    then show ?thesis using count step inv1 by simp
  qed
qed

lemma read_file_store: "snd (snd (read_file fs filename_p buffer_p buffer_size)) = fs"
  by (simp add: read_file_def Let_def split: option.splits)

lemma serve_count:
  assumes "unat (file_count (superblock fs)) = live_records fs"
    and "serve fs r = Some (ok, fs')" and "named r"
  shows "unat (file_count (superblock fs')) = live_records fs'"
proof (cases r)
  case (Create filename_p data_p sz)
  then show ?thesis using assms create_file_count by simp
next
  case (Delete name)
  then show ?thesis using assms delete_file_count by simp
next
  case (Read filename_p buffer_p buffer_size)
  then have "fs' = fs"
    using assms(2) read_file_store [of fs filename_p buffer_p buffer_size]
    by (auto split: prod.splits)
  then show ?thesis using assms(1) by simp
qed

lemma serve_all_count:
  "unat (file_count (superblock fs)) = live_records fs \<Longrightarrow>
   serve_all fs rs = Some (oks, fs') \<Longrightarrow> list_all named rs \<Longrightarrow>
   unat (file_count (superblock fs')) = live_records fs'"
proof (induction rs arbitrary: fs oks)
  case Nil
  then show ?case by simp
next
  case (Cons r rs)
  from Cons.prems(2) obtain ok fs1 oks1 where one: "serve fs r = Some (ok, fs1)"
    and more: "serve_all fs1 rs = Some (oks1, fs')"
    by (auto split: option.splits prod.splits)
  have "unat (file_count (superblock fs1)) = live_records fs1"
    using Cons.prems(1) one Cons.prems(3) by (auto intro: serve_count)
  then show ?case using more Cons.prems(3) by (auto intro: Cons.IH)
qed

lemma format_count: "unat (file_count (superblock (snd (format fs)))) = live_records (snd (format fs))"
proof -
  have "filter (\<lambda>i. filename (file_table (snd (format fs)) i) \<noteq> []) [0..<RAMDISK_MAX_FILES] = []"
    by (simp add: format_def Let_def)
  then show ?thesis by (simp add: live_records_def format_def Let_def)
qed

lemma file_count_mirrors_directory:
  assumes "serve_all (snd (format fs0)) rs = Some (oks, fs)" and "list_all named rs"
  shows "unat (file_count (superblock fs)) = live_records fs"
  using format_count assms by (rule serve_all_count)

lemma create_file_total_blocks:
  assumes "create_file fs filename_p data_p sz = Some (ok, fs')"
  shows "total_blocks (superblock fs') = total_blocks (superblock fs)"
proof (cases "filename_p = None \<or> data_p = None \<or> sz = 0")
  case True
  then have "fs' = fs" using assms by (auto simp: create_file_def split: option.splits)
  then show ?thesis by simp
next
  case False
  then obtain name payload where args: "filename_p = Some name" "data_p = Some payload"
    and nz: "sz \<noteq> 0" by auto
  note cr = assms [unfolded args]
  from cr nz obtain fs1 where ow: "overwritten fs name = Some fs1"
    by (rule create_file_overwrites)
  have "total_blocks (superblock fs') = total_blocks (superblock fs1)"
    using cr nz ow unfolding create_file_def overwritten_def [symmetric]
    by (auto simp: Let_def bind_eq_Some_conv split: option.splits if_splits list.splits)
  then show ?thesis using overwritten_total_blocks [OF ow] by simp
qed

lemma serve_total_blocks:
  assumes "serve fs r = Some (ok, fs')"
  shows "total_blocks (superblock fs') = total_blocks (superblock fs)"
proof (cases r)
  case (Create filename_p data_p sz)
  then show ?thesis using assms create_file_total_blocks by simp
next
  case (Delete name)
  then show ?thesis using assms delete_file_total_blocks by simp
next
  case (Read filename_p buffer_p buffer_size)
  then have "fs' = fs"
    using assms read_file_store [of fs filename_p buffer_p buffer_size]
    by (auto split: prod.splits)
  then show ?thesis by simp
qed

lemma serve_all_total_blocks:
  "serve_all fs rs = Some (oks, fs') \<Longrightarrow>
   total_blocks (superblock fs') = total_blocks (superblock fs)"
proof (induction rs arbitrary: fs oks)
  case Nil
  then show ?case by simp
next
  case (Cons r rs)
  from Cons.prems obtain ok fs1 oks1 where one: "serve fs r = Some (ok, fs1)"
    and more: "serve_all fs1 rs = Some (oks1, fs')"
    by (auto split: option.splits prod.splits)
  show ?case using Cons.IH [OF more] serve_total_blocks [OF one] by simp
qed

text \<open>
  The overwrite comes before the space check: when a same-named file exists and the
  payload does not fit even after its deletion, \<open>create_file\<close> returns false with the
  old file gone.
\<close>

lemma create_file_overwrite_insufficient_space:
  assumes "sz \<noteq> 0" and "overwritten fs name = Some fs1"
    and "free_blocks (superblock fs1) < calculate_blocks_needed sz"
  shows "create_file fs (Some name) (Some payload) sz = Some (False, fs1)"
  using assms unfolding create_file_def overwritten_def [symmetric]
  by (simp add: Let_def split: option.splits)

section \<open>The block count and the ceiling\<close>

text \<open>
  \<open>calculate_blocks_needed\<close> adds 1023 in 32 bits. Up to 4294966272 bytes the sum does
  not wrap and the result is the ceiling of \<open>size / 1024\<close>; from 4294966273 bytes on it
  wraps and the result is 0.
\<close>

lemma blocks_needed_ceiling:
  assumes "unat sz \<le> 4294966272"
  shows "unat (calculate_blocks_needed sz) = (unat sz + 1023) div 1024"
proof -
  have "unat sz + unat (1023 :: u32) < 2 ^ LENGTH(32)" using assms by simp
  then have "unat (sz + 1023) = unat sz + unat (1023 :: u32)"
    by (simp only: unat_add_lem)
  moreover have "calculate_blocks_needed sz = (sz + 1023) div 1024"
    by (simp add: calculate_blocks_needed_def RAMDISK_BLOCK_SIZE_def add.commute)
  ultimately show ?thesis by (simp add: unat_div)
qed

lemma blocks_needed_wraps:
  assumes "4294966273 \<le> unat sz"
  shows "calculate_blocks_needed sz = 0"
proof -
  have bound: "unat sz < 4294967296" using unsigned_less [of sz] by simp
  have "unat (sz + 1023) = (unat sz + unat (1023 :: u32)) mod 2 ^ LENGTH(32)"
    by (rule unat_word_ariths(1))
  then have "unat (sz + 1023) = unat sz + 1023 - 4294967296"
    using assms bound by (simp add: mod_if)
  then have "unat (sz + 1023) < 1024" using bound by simp
  then have "unat ((sz + 1023) div 1024) = 0" by (simp add: unat_div)
  moreover have "calculate_blocks_needed sz = (sz + 1023) div 1024"
    by (simp add: calculate_blocks_needed_def RAMDISK_BLOCK_SIZE_def add.commute)
  ultimately show ?thesis by (simp add: unat_eq_0)
qed

section \<open>Evaluating the default store\<close>

lemmas layout_defs = RAMDISK_DEFAULT_SIZE_def RAMDISK_BLOCK_SIZE_def RAMDISK_MAX_FILES_def
  sizeof_RAMDiskFileEntry_def sizeof_RAMDiskSuperblock_def RAMDISK_FILENAME_LEN_def
  RAMDISK_VERSION_def RAMDISK_MAGIC_def

lemmas run_defs = create_file_def delete_file_def find_file_entry_def find_free_file_entry_def
  calculate_blocks_needed_def layout_defs upt_conv_Cons collect_free.simps

lemma default_store:
  "fs_initialize zeroed =
     \<lparr>disk_memory = 0x200000, total_size = 0x100000, fat_ptr = 0x200204,
      file_table_ptr = 0x200604, data_blocks_ptr = 0x238A04,
      superblock = \<lparr>magic = ''ATOMICFS'', version = 1, total_blocks = 797, free_blocks = 797,
        file_count = 0, block_size = 1024, data_blocks = 797\<rparr>,
      fat = (\<lambda>i. 0),
      file_table = (\<lambda>i. \<lparr>filename = [], start_block = 0, size_f = 0, timestamp = 0,
        type_f = 0\<rparr>),
      data_region = (\<lambda>i. 0)\<rparr>"
  by (simp add: fs_initialize_def initialize_def format_def Let_def zeroed_def layout_defs
      cong: if_cong)

lemma default_store_empty: "find_file_entry (fs_initialize zeroed) name = None"
  unfolding default_store by (simp add: find_file_entry_def find_None_iff)

lemma filter_upt_split:
  assumes "k \<le> n"
  shows "length (filter P [0..<n]) = length (filter P [0..<k]) + length (filter P [k..<n])"
proof -
  from assms have "[0..<n] = [0..<k] @ [k..<n]"
    by (metis le_add_diff_inverse upt_add_eq_append zero_le)
  then show ?thesis by simp
qed

lemma filter_upt_all:
  assumes "\<forall>i. k \<le> i \<and> i < n \<longrightarrow> P i"
  shows "length (filter P [k..<n]) = n - k"
proof -
  from assms have "filter P [k..<n] = [k..<n]" by (simp add: filter_id_conv)
  then show ?thesis by simp
qed

lemma zero_entries_797:
  assumes "total_blocks (superblock fs) = 797" "fat fs 0 = 0" "fat fs 1 = 0" "fat fs 2 = 1"
    and "\<forall>i. 3 \<le> i \<longrightarrow> fat fs i = 0"
  shows "fat_zero_entries fs = 796"
proof -
  have low: "length (filter (\<lambda>i. fat fs i = 0) [0..<3]) = 2"
    using assms by (simp add: upt_conv_Cons numeral_2_eq_2)
  have high: "length (filter (\<lambda>i. fat fs i = 0) [3..<797]) = 797 - 3"
    by (rule filter_upt_all) (use assms in simp)
  show ?thesis
    unfolding fat_zero_entries_def using assms(1) low high
    by (simp add: filter_upt_split [of 3 797])
qed

text \<open>
  Two one-block files, the first deleted, a two-block file created into the hole (it
  gets the blocks 0 and 2), then that file and the second one deleted.
\<close>

lemma fragmented_run:
  "map_option (\<lambda>(oks, fs). (free_blocks (superblock fs), total_blocks (superblock fs),
       (fat fs 0, fat fs 1, fat fs 2), (\<forall>i. 3 \<le> i \<longrightarrow> fat fs i = 0)))
     (serve_all (fs_initialize zeroed)
       [Create (Some ''a'') (Some (fill 1)) 1, Create (Some ''b'') (Some (fill 2)) 1,
        Delete ''a'', Create (Some ''c'') (Some (fill 3)) 1025, Delete ''c'', Delete ''b''])
   = Some (797, 797, (0, 0, 1), True)"
  unfolding default_store by (simp add: run_defs)

text \<open>
  The round trip on the default store: ten bytes \<open>A\<close> written as \<open>a.txt\<close> land in block
  0 and are read back.
\<close>

lemma roundtrip_default_store:
  "\<exists>fs'. create_file (fs_initialize zeroed) (Some ''a.txt'') (Some (fill 65)) 10
            = Some (True, fs')
     \<and> read_file fs' (Some ''a.txt'') (Some (fill 0)) 10
            = (True, Some (\<lambda>i. if i < 10 then 65 else 0), fs')"
proof -
  have "map_option fst
      (create_file (fs_initialize zeroed) (Some ''a.txt'') (Some (fill 65)) 10) = Some True"
    unfolding default_store by (simp add: run_defs)
  then obtain fs' where created:
    "create_file (fs_initialize zeroed) (Some ''a.txt'') (Some (fill 65)) 10 = Some (True, fs')"
    by auto
  have taken: "allocation_of (fs_initialize zeroed) ''a.txt'' 10 = Some [0]"
    unfolding allocation_of_def overwritten_def default_store_empty
    unfolding default_store by (simp add: run_defs)
  have layout: "unat (total_blocks (superblock (fs_initialize zeroed))) * 1024 \<le> 2 ^ 32"
    unfolding default_store by simp
  have "read_file fs' (Some ''a.txt'') (Some (fill 0)) 10
      = (True, Some (\<lambda>i. if i < unat (10 :: u32) then fill 65 i else fill 0 i), fs')"
    by (rule create_then_read [OF created _ layout taken, of 0]) simp_all
  then show ?thesis using created unfolding fill_def by simp
qed

section \<open>The claims\<close>

text \<open>
  C1. Round trip: if \<open>create(name, payload)\<close> succeeds on a non-empty payload and the
  blocks it took are one contiguous run, a \<open>read(name, buffer)\<close> with room for the payload
  succeeds and delivers the payload. Where \<open>create_file\<close> stays inside its arrays (a name
  of at most 31 characters, a block count that does not wrap) and the name is not empty,
  this is \<open>create_then_read\<close>.
  For the empty name the code does otherwise: on the default store \<open>create\<close> of one
  byte under the name \<open>""\<close> returns true, having taken block 0 alone, and the \<open>read\<close>
  of \<open>""\<close> that follows returns false.
\<close>

theorem create_empty_name_not_readable:
  "map_option fst
     (serve_all (fs_initialize zeroed)
        [Create (Some '''') (Some (fill 7)) 1, Read (Some '''') (Some (fill 0)) 1])
     = Some [True, False]
   \<and> collect_free (fat (fs_initialize zeroed)) 797 (unat (calculate_blocks_needed 1)) 0 [] = [0]"
  unfolding default_store by (simp add: run_defs read_file_def)

text \<open>
  C2. In every state reached from a freshly formatted store by creates and deletes,
  \<open>free_blocks\<close> equals the number of zero entries of the allocation table. The code
  breaks this: after the run of \<open>fragmented_run\<close> on the default store every file is gone
  and \<open>free_blocks\<close> is back at 797, but block 2 is still marked used, so only 796
  entries are zero.
\<close>

theorem free_blocks_diverges_from_fat:
  "map_option (free_blocks \<circ> superblock \<circ> snd)
     (serve_all (fs_initialize zeroed)
       [Create (Some ''a'') (Some (fill 1)) 1, Create (Some ''b'') (Some (fill 2)) 1,
        Delete ''a'', Create (Some ''c'') (Some (fill 3)) 1025, Delete ''c'', Delete ''b''])
     = Some 797
   \<and> map_option (fat_zero_entries \<circ> snd)
     (serve_all (fs_initialize zeroed)
       [Create (Some ''a'') (Some (fill 1)) 1, Create (Some ''b'') (Some (fill 2)) 1,
        Delete ''a'', Create (Some ''c'') (Some (fill 3)) 1025, Delete ''c'', Delete ''b''])
     = Some 796"
  using fragmented_run by (auto simp: zero_entries_797)

text \<open>
  C3. After \<open>initialize\<close> of 1,048,576 bytes with 1024-byte blocks the data region begins
  right behind the 64-record directory, and \<open>total_blocks\<close> is what is left of the 1024
  blocks. In the code the directory ends at offset 5380, which would leave 1018 blocks,
  but \<open>data_blocks\<close> is set to offset 231940 (the directory's byte size was added to a
  record pointer), and \<open>total_blocks\<close> is 797.
\<close>

theorem data_region_offset_default:
  "data_blocks_ptr (fs_initialize fs0) - disk_memory (fs_initialize fs0) = 231940
   \<and> file_table_ptr (fs_initialize fs0) - disk_memory (fs_initialize fs0)
       + of_nat RAMDISK_MAX_FILES * sizeof_RAMDiskFileEntry = 5380
   \<and> total_blocks (superblock (fs_initialize fs0)) = 797
   \<and> (RAMDISK_DEFAULT_SIZE - 5380) div RAMDISK_BLOCK_SIZE = 1018"
  by (simp add: fs_initialize_def initialize_def format_def Let_def layout_defs)

text \<open>
  C4. In every state reached from a freshly formatted store by creates and deletes, also
  creates under the empty name, \<open>file_count\<close> equals the number of directory records with
  a non-empty name. For runs without such a create, as far as \<open>create_file\<close> stays
  inside its arrays, this is \<open>file_count_mirrors_directory\<close>. The code breaks it with one: a \<open>create\<close> under the
  name \<open>""\<close> on the default store sets \<open>file_count\<close> to 1 while no record has a name.
\<close>

theorem file_count_counts_empty_name:
  "map_option (file_count \<circ> superblock \<circ> snd)
     (serve_all (fs_initialize zeroed) [Create (Some '''') (Some (fill 1)) 1]) = Some 1
   \<and> map_option (live_records \<circ> snd)
     (serve_all (fs_initialize zeroed) [Create (Some '''') (Some (fill 1)) 1]) = Some 0"
  unfolding default_store by (simp add: run_defs live_records_def)

text \<open>
  C5, as amended. For a payload of at most 4294966272 bytes (the sizes whose block count
  does not wrap in 32 bits): when no live record is named \<open>name\<close> and the ceiling of
  \<open>size / 1024\<close> exceeds \<open>free_blocks\<close>, \<open>create_file\<close> returns false and leaves the
  whole store as it was: superblock, allocation table, directory and data region.
\<close>

theorem create_file_insufficient_space:
  assumes "find_file_entry fs name = None"
    and "unat sz \<le> 4294966272"
    and "unat (free_blocks (superblock fs)) < (unat sz + 1023) div 1024"
  shows "create_file fs (Some name) data_p sz = Some (False, fs)"
proof -
  have "free_blocks (superblock fs) < calculate_blocks_needed sz"
    using assms(2,3) by (simp add: word_less_nat_alt blocks_needed_ceiling)
  then show ?thesis
    using assms(1) by (simp add: create_file_def Let_def split: option.splits)
qed

theorem create_file_insufficient_space_witness:
  "find_file_entry (fs_initialize zeroed) ''big'' = None
   \<and> unat (817152 :: u32) \<le> 4294966272
   \<and> unat (free_blocks (superblock (fs_initialize zeroed))) = 797
   \<and> (unat (817152 :: u32) + 1023) div 1024 = 798
   \<and> create_file (fs_initialize zeroed) (Some ''big'') (Some (fill 0)) 817152
       = Some (False, fs_initialize zeroed)"
proof -
  have absent: "find_file_entry (fs_initialize zeroed) ''big'' = None"
    by (rule default_store_empty)
  have fits: "unat (817152 :: u32) \<le> 4294966272" by simp
  have free: "unat (free_blocks (superblock (fs_initialize zeroed))) = 797"
    unfolding default_store by simp
  have need: "(unat (817152 :: u32) + 1023) div 1024 = 798" by simp
  have short: "unat (free_blocks (superblock (fs_initialize zeroed)))
      < (unat (817152 :: u32) + 1023) div 1024"
    unfolding free need by simp
  show ?thesis
    using absent fits free need create_file_insufficient_space [OF absent fits short]
    by simp
qed

text \<open>
  C5 as stated fails when a live record has the name: the file \<open>a\<close> holds block 0 of the
  default store and 796 blocks are free; a \<open>create\<close> of 817152 bytes (798 blocks) under
  the same name returns false, and afterwards block 0 is free and slot 0 has no name.
\<close>

theorem create_file_overwrite_deletes_before_space_check:
  "map_option fst
     (serve_all (fs_initialize zeroed)
        [Create (Some ''a'') (Some (fill 1)) 1, Create (Some ''a'') (Some (fill 0)) 817152])
     = Some [True, False]
   \<and> calculate_blocks_needed 817152 = 798
   \<and> map_option (free_blocks \<circ> superblock \<circ> snd)
       (serve_all (fs_initialize zeroed) [Create (Some ''a'') (Some (fill 1)) 1]) = Some 796
   \<and> map_option (fat_at 0 \<circ> snd)
       (serve_all (fs_initialize zeroed) [Create (Some ''a'') (Some (fill 1)) 1]) = Some 1
   \<and> map_option (name_at 0 \<circ> snd)
       (serve_all (fs_initialize zeroed) [Create (Some ''a'') (Some (fill 1)) 1]) = Some ''a''
   \<and> map_option (fat_at 0 \<circ> snd)
       (serve_all (fs_initialize zeroed)
          [Create (Some ''a'') (Some (fill 1)) 1, Create (Some ''a'') (Some (fill 0)) 817152])
       = Some 0
   \<and> map_option (name_at 0 \<circ> snd)
       (serve_all (fs_initialize zeroed)
          [Create (Some ''a'') (Some (fill 1)) 1, Create (Some ''a'') (Some (fill 0)) 817152])
       = Some []"
  unfolding default_store by (simp add: run_defs fat_at_def name_at_def)

text \<open>
  C6. When all 64 directory records are live and no live record is named \<open>name\<close>,
  \<open>create_file\<close> finds no free record, returns false and leaves the whole store as it
  was: no table entry is marked and \<open>free_blocks\<close> keeps its value.
\<close>

theorem create_file_directory_full:
  assumes "\<forall>i<RAMDISK_MAX_FILES. filename (file_table fs i) \<noteq> []"
    and "find_file_entry fs name = None"
  shows "find_free_file_entry fs = None
    \<and> create_file fs (Some name) data_p sz = Some (False, fs)"
proof -
  have "find_free_file_entry fs = None"
    using assms(1) by (simp add: find_free_file_entry_def find_None_iff)
  then show ?thesis
    using assms(2) by (simp add: create_file_def split: option.splits)
qed

theorem create_file_directory_full_witness:
  "live_records crowded = 64
   \<and> find_file_entry crowded ''g'' = None
   \<and> find_free_file_entry crowded = None
   \<and> create_file crowded (Some ''g'') (Some (fill 1)) 1 = Some (False, crowded)"
proof -
  have live: "\<forall>i<RAMDISK_MAX_FILES. filename (file_table crowded i) \<noteq> []"
    by (simp add: crowded_def)
  have absent: "find_file_entry crowded ''g'' = None"
    by (simp add: crowded_def find_file_entry_def find_None_iff)
  have count: "live_records crowded = 64"
    unfolding live_records_def RAMDISK_MAX_FILES_def
    using filter_upt_all [of 0 64 "\<lambda>i. filename (file_table crowded i) \<noteq> []"]
    by (simp add: crowded_def)
  show ?thesis
    using count absent create_file_directory_full [OF live absent] by simp
qed

text \<open>
  C7. \<open>create\<close> fails whenever the name is the empty string or the payload is empty, and
  then changes nothing. The code checks the two pointers and \<open>size == 0\<close> only
  (\<open>create_file_null_name\<close>, \<open>create_file_null_data\<close>, \<open>create_file_empty_payload\<close>): on the
  default store \<open>create\<close> of one byte under the name \<open>""\<close> returns true, marks block 0
  used, lowers \<open>free_blocks\<close> to 796 and raises \<open>file_count\<close> to 1, while slot 0 keeps
  the empty name.
\<close>

theorem create_file_accepts_empty_name:
  "map_option fst (create_file (fs_initialize zeroed) (Some '''') (Some (fill 1)) 1) = Some True
   \<and> map_option (fat_at 0 \<circ> snd)
       (create_file (fs_initialize zeroed) (Some '''') (Some (fill 1)) 1) = Some 1
   \<and> map_option (free_blocks \<circ> superblock \<circ> snd)
       (create_file (fs_initialize zeroed) (Some '''') (Some (fill 1)) 1) = Some 796
   \<and> map_option (file_count \<circ> superblock \<circ> snd)
       (create_file (fs_initialize zeroed) (Some '''') (Some (fill 1)) 1) = Some 1
   \<and> map_option (name_at 0 \<circ> snd)
       (create_file (fs_initialize zeroed) (Some '''') (Some (fill 1)) 1) = Some []"
  unfolding default_store by (simp add: run_defs fat_at_def name_at_def)

text \<open>
  C8, as amended. For a name with no live record \<open>get_file_info\<close> writes nothing: the
  caller's size and timestamp cells keep what they held.
\<close>

theorem get_file_info_not_found:
  assumes "find_file_entry fs name = None"
  shows "get_file_info fs name size_p timestamp_p = (size_p, timestamp_p)"
  using assms by (simp add: get_file_info_def)

theorem get_file_info_not_found_witness:
  "find_file_entry (fs_initialize zeroed) ''notes'' = None
   \<and> get_file_info (fs_initialize zeroed) ''notes'' (Some 7) None = (Some 7, None)"
  using get_file_info_not_found [OF default_store_empty, of "''notes''" "Some 7" None]
  by (simp add: default_store_empty)

text \<open>
  C8 as stated fails: on the default store no record is named \<open>a.txt\<close>, and cells
  holding 7 and 9 hold 7 and 9 after the call, not zero.
\<close>

theorem get_file_info_not_found_keeps_outputs:
  "find_file_entry (fs_initialize zeroed) ''a.txt'' = None
   \<and> get_file_info (fs_initialize zeroed) ''a.txt'' (Some 7) (Some 9) = (Some 7, Some 9)
   \<and> (Some 7, Some 9) \<noteq> (Some (0 :: u32), Some (0 :: u32))"
  by (simp add: get_file_info_def default_store_empty)

text \<open>
  C9. \<open>read_file\<close> returns the store it was given, whatever the name, the buffer and the
  capacity are and whichever flag it returns: superblock, allocation table, directory and
  data region are unchanged.
\<close>

theorem read_file_frame:
  "snd (snd (read_file fs filename_p buffer_p buffer_size)) = fs"
  by (simp add: read_file_def Let_def split: option.splits)

text \<open>
  C10. For a name with no live record \<open>delete_file\<close> returns false and leaves the whole
  store as it was.
\<close>

theorem delete_file_not_found:
  assumes "find_file_entry fs name = None"
  shows "delete_file fs name = Some (False, fs)"
  using assms by (simp add: delete_file_def)

theorem delete_file_not_found_witness:
  "find_file_entry (fs_initialize zeroed) ''ghost'' = None
   \<and> delete_file (fs_initialize zeroed) ''ghost'' = Some (False, fs_initialize zeroed)"
  using delete_file_not_found [OF default_store_empty, of "''ghost''"]
  by (simp add: default_store_empty)

end
